theory Spec2Isabelle
  imports Complex_Main
begin

section \<open>Map provider adapter: great-circle distance\<close>

text \<open>
  Strings are lists of code units, so \<open>length\<close> is the source's \<open>.length\<close>.  Numbers
  are reals.  The model does no floating-point arithmetic of its own: the distances it
  compares with the 40 metre threshold are the values the provider's helper returns.
\<close>

text \<open>
  \<^verbatim>\<open>calculateDistance\<close> of the SDK implementation, the one the navigation screen
  imports, delegates to the provider SDK.  The SDK is a global that may be absent
  (\<^verbatim>\<open>typeof google === 'undefined'\<close>); when present it supplies the \<^verbatim>\<open>LatLng\<close>
  constructor and the spherical-geometry helper, both external to the repository and
  therefore parameters of the model.
\<close>

datatype LatLng = LatLng real real

datatype PlacesServiceStatus =
  OK | ZERO_RESULTS | INVALID_REQUEST | OVER_QUERY_LIMIT | REQUEST_DENIED | UNKNOWN_ERROR | NOT_FOUND

record AutocompletePrediction =
  ap_place_id :: string
  ap_description :: string
  ap_main_text :: string
  ap_secondary_text :: string

record google_sdk =
  computeDistanceBetween :: "LatLng \<Rightarrow> LatLng \<Rightarrow> real"
  AutocompleteService_getPlacePredictions ::
    "string \<Rightarrow> AutocompletePrediction list option \<times> PlacesServiceStatus"

definition calculateDistance_google ::
  "google_sdk option \<Rightarrow> real \<Rightarrow> real \<Rightarrow> real \<Rightarrow> real \<Rightarrow> real" where
  "calculateDistance_google google lat1 lng1 lat2 lng2 =
     (case google of
        None \<Rightarrow> 0
      | Some g \<Rightarrow>
          (let p1 = LatLng lat1 lng1;
               p2 = LatLng lat2 lng2
           in computeDistanceBetween g p1 p2))"

section \<open>Navigation flow\<close>

text \<open>The parts of the provider's directions result that the navigation screen reads.\<close>

record DirectionsStep =
  end_location :: LatLng
  instructions :: string

record DirectionsLeg =
  steps :: "DirectionsStep list"
  leg_distance_text :: "string option"
  leg_duration_text :: "string option"

record DirectionsRoute =
  legs :: "DirectionsLeg list"

record DirectionsResult =
  routes :: "DirectionsRoute list"

datatype location = Coords LatLng | Place string

record waypoint =
  wp_location :: location
  stopover :: bool

text \<open>
  The text shown for the distance to the next turn:
  \<^verbatim>\<open>dist < 1000 ? `${Math.round(dist)} m` : `${(dist / 1000).toFixed(1)} km`\<close>,
  kept as the number that is printed (whole metres, or tenths of a kilometre).
\<close>

datatype dist_text = NoText | Metres int | KmTenths int

definition format_distance :: "real \<Rightarrow> dist_text" where
  "format_distance dst =
     (if dst < 1000 then Metres \<lfloor>dst + 1 / 2\<rfloor> else KmTenths \<lfloor>dst / 1000 * 10 + 1 / 2\<rfloor>)"

datatype map_error_type = permission | network | generic

record stop_candidate =
  geometry_location :: "LatLng option"
  description :: string

text \<open>
  The React state of \<^verbatim>\<open>NavigationScreen\<close>.  \<open>waypoints_ref\<close> is the identity of the
  \<open>waypoints\<close> array: every \<^verbatim>\<open>setWaypoints\<close> installs a fresh array, and effect
  dependencies are compared by identity.  \<open>mapRef\<close> is the map object's camera centre
  (\<open>None\<close> while the ref is null).
\<close>

record nav_state =
  isLoaded :: bool
  trip_from :: string
  trip_to :: string
  waypoints :: "waypoint list"
  waypoints_ref :: nat
  directions :: "DirectionsResult option"
  currentLegIndex :: nat
  currentStepIndex :: nat
  distanceToNextTurn :: dist_text
  isAutoCentering :: bool
  userLocation :: "LatLng option"
  mapRef :: "LatLng option option"
  mapZoom :: nat
  mapError :: "(map_error_type \<times> string) option"
  showAddStopModal :: bool
  isStopsListVisible :: bool
  stopSearchResults :: "stop_candidate list option"

text \<open>\<^verbatim>\<open>xs[i]\<close> of JavaScript: \<^verbatim>\<open>undefined\<close> out of range.\<close>

definition js_index :: "'a list \<Rightarrow> nat \<Rightarrow> 'a option" where
  "js_index xs i = (if i < length xs then Some (xs ! i) else None)"

text \<open>
  \<^verbatim>\<open>directions && directions.routes[0] && directions.routes[0].legs[0]\<close>, then
  \<^verbatim>\<open>.steps\<close>: the steps of the first leg of the first route, when there are any.
\<close>

definition first_leg_steps :: "DirectionsResult option \<Rightarrow> DirectionsStep list option" where
  "first_leg_steps d =
     (case d of
        None \<Rightarrow> None
      | Some r \<Rightarrow>
          (case js_index (routes r) 0 of
             None \<Rightarrow> None
           | Some route \<Rightarrow>
               (case js_index (legs route) 0 of
                  None \<Rightarrow> None
                | Some leg \<Rightarrow> Some (steps leg))))"

text \<open>
  The condition under which the position callback calls
  \<^verbatim>\<open>setCurrentStepIndex(prev => prev + 1)\<close>, evaluated on the values the callback
  closes over (\<open>d\<close>, \<open>idx\<close>): the step at the index exists, the distance from the new
  position to its end is under 40, and \<^verbatim>\<open>currentStepIndex < steps.length - 1\<close>.
\<close>

definition step_distance ::
  "google_sdk option \<Rightarrow> LatLng \<Rightarrow> DirectionsStep \<Rightarrow> real" where
  "step_distance google newPos step =
     (case (newPos, end_location step) of
        (LatLng lat lng, LatLng elat elng) \<Rightarrow> calculateDistance_google google lat lng elat elng)"

definition should_advance ::
  "google_sdk option \<Rightarrow> DirectionsResult option \<Rightarrow> nat \<Rightarrow> LatLng \<Rightarrow> bool" where
  "should_advance google d idx newPos =
     (case first_leg_steps d of
        None \<Rightarrow> False
      | Some sts \<Rightarrow>
          (case js_index sts idx of
             None \<Rightarrow> False
           | Some step \<Rightarrow>
               step_distance google newPos step < 40 \<and> int idx < int (length sts) - 1))"

text \<open>The turn-by-turn part of the callback (\<^verbatim>\<open>// Simulate Turn-by-Turn Progress\<close>).\<close>

definition turn_by_turn ::
  "google_sdk option \<Rightarrow> nav_state \<Rightarrow> LatLng \<Rightarrow> nav_state \<Rightarrow> nav_state" where
  "turn_by_turn google cap newPos s =
     (case first_leg_steps (directions cap) of
        None \<Rightarrow> s
      | Some sts \<Rightarrow>
          (case js_index sts (currentStepIndex cap) of
             None \<Rightarrow> s
           | Some step \<Rightarrow>
               (let dst = step_distance google newPos step;
                    s1 = s\<lparr>distanceToNextTurn := format_distance dst\<rparr>
                in if dst < 40 \<and> int (currentStepIndex cap) < int (length sts) - 1
                   then s1\<lparr>currentStepIndex := currentStepIndex s1 + 1\<rparr>
                   else s1)))"

text \<open>
  The \<^verbatim>\<open>watchPosition\<close> success callback.  \<open>cap\<close> is the render whose values the
  callback closes over (\<^verbatim>\<open>isAutoCentering\<close>, \<^verbatim>\<open>currentTrip\<close>, \<^verbatim>\<open>directions\<close>,
  \<^verbatim>\<open>currentStepIndex\<close>); \<open>s\<close> is the state the setters act on.  The callback is
  registered anew whenever \<^verbatim>\<open>isAutoCentering\<close>, \<^verbatim>\<open>directions\<close> or
  \<^verbatim>\<open>currentStepIndex\<close> change, so for these \<open>cap\<close> is normally \<open>s\<close> itself.
  \<open>reverseGeocode\<close> is the adapter call; \<open>None\<close> stands for a thrown error, which the
  callback ignores.
\<close>

definition on_position ::
  "google_sdk option \<Rightarrow> (real \<Rightarrow> real \<Rightarrow> string option) \<Rightarrow> nav_state \<Rightarrow> LatLng \<Rightarrow> nav_state
     \<Rightarrow> nav_state" where
  "on_position google reverseGeocode cap newPos s =
     (let s1 = s\<lparr>userLocation := Some newPos\<rparr>;
          s2 = (if isAutoCentering cap \<and> mapRef s1 \<noteq> None
                then s1\<lparr>mapRef := Some (Some newPos)\<rparr> else s1);
          s3 = (if trip_from cap = ''Current Location''
                then (case newPos of LatLng lat lng \<Rightarrow>
                        (case reverseGeocode lat lng of
                           None \<Rightarrow> s2
                         | Some addr \<Rightarrow> if addr \<noteq> [] then s2\<lparr>trip_from := addr\<rparr> else s2))
                else s2)
      in turn_by_turn google cap newPos s3)"

text \<open>The stop handlers, the only code that calls \<^verbatim>\<open>setWaypoints\<close>.\<close>

definition handleSelectStop :: "stop_candidate \<Rightarrow> nav_state \<Rightarrow> nav_state" where
  "handleSelectStop placeResult s =
     (let loc = (case geometry_location placeResult of
                   Some l \<Rightarrow> Coords l
                 | None \<Rightarrow> Place (description placeResult))
      in s\<lparr>waypoints := waypoints s @ [\<lparr>wp_location = loc, stopover = True\<rparr>],
            waypoints_ref := Suc (waypoints_ref s),
            isStopsListVisible := False,
            stopSearchResults := None\<rparr>)"

definition handlePlaceSelect ::
  "(string \<Rightarrow> LatLng option option) \<Rightarrow> string \<Rightarrow> nav_state \<Rightarrow> nav_state" where
  "handlePlaceSelect getPlaceDetails placeId s =
     (let s1 = s\<lparr>showAddStopModal := False\<rparr>
      in case getPlaceDetails placeId of
           Some (Some l) \<Rightarrow>
             s1\<lparr>waypoints := waypoints s1 @ [\<lparr>wp_location = Coords l, stopover = True\<rparr>],
                 waypoints_ref := Suc (waypoints_ref s1)\<rparr>
         | _ \<Rightarrow> s1\<lparr>mapError := Some (generic, ''Could not get details for selected stop.'')\<rparr>)"

definition handleRemoveStop :: "nav_state \<Rightarrow> nav_state" where
  "handleRemoveStop s = s\<lparr>waypoints := [], waypoints_ref := Suc (waypoints_ref s)\<rparr>"

definition onDragStart :: "nav_state \<Rightarrow> nav_state" where
  "onDragStart s = s\<lparr>isAutoCentering := False\<rparr>"

definition recenterMap :: "nav_state \<Rightarrow> nav_state" where
  "recenterMap s =
     (case (mapRef s, userLocation s) of
        (Some _, Some l) \<Rightarrow> s\<lparr>mapRef := Some (Some l), mapZoom := 17, isAutoCentering := True\<rparr>
      | _ \<Rightarrow> s)"

text \<open>
  The route effect: \<^verbatim>\<open>useEffect(..., [isLoaded, currentTrip.from, currentTrip.to, waypoints])\<close>.
  After a render it runs when one of the four dependencies differs from the previous
  render; it returns at once unless the maps are loaded and both ends are non-empty,
  and otherwise calls \<^verbatim>\<open>getDirections(origin, dest, googleWaypoints)\<close> once.
  \<open>coordinateRegex\<close> is the match of the coordinate pattern of \<^verbatim>\<open>getRouteLocation\<close>.
\<close>

datatype directions_request = GetDirections location location "waypoint list"

definition getRouteLocation :: "(string \<Rightarrow> LatLng option) \<Rightarrow> string \<Rightarrow> location option" where
  "getRouteLocation coordinateRegex locationString =
     (if locationString = [] then None
      else if locationString = ''Current Location'' then Some (Place locationString)
      else (case coordinateRegex locationString of
              Some c \<Rightarrow> Some (Coords c)
            | None \<Rightarrow> Some (Place locationString)))"

definition resolveLoc :: "(string \<Rightarrow> LatLng option) \<Rightarrow> string \<Rightarrow> location" where
  "resolveLoc coordinateRegex loc =
     (case getRouteLocation coordinateRegex loc of
        Some (Coords c) \<Rightarrow> Coords c
      | _ \<Rightarrow> Place loc)"

definition route_deps :: "nav_state \<Rightarrow> bool \<times> string \<times> string \<times> nat" where
  "route_deps s = (isLoaded s, trip_from s, trip_to s, waypoints_ref s)"

definition fetchRoute :: "(string \<Rightarrow> LatLng option) \<Rightarrow> nav_state \<Rightarrow> directions_request list" where
  "fetchRoute coordinateRegex s =
     (let origin = resolveLoc coordinateRegex (trip_from s);
          dest = resolveLoc coordinateRegex (trip_to s);
          googleWaypoints = map (\<lambda>wp. \<lparr>wp_location = wp_location wp, stopover = stopover wp\<rparr>)
                                (waypoints s)
      in [GetDirections origin dest googleWaypoints])"

definition route_effect ::
  "(string \<Rightarrow> LatLng option) \<Rightarrow> nav_state \<Rightarrow> nav_state \<Rightarrow> directions_request list" where
  "route_effect coordinateRegex prev s =
     (if route_deps prev = route_deps s then []
      else if \<not> isLoaded s \<or> trip_from s = [] \<or> trip_to s = [] then []
      else fetchRoute coordinateRegex s)"

text \<open>
  The user and sensor events of the navigation screen.  A position update carries the
  render its callback closes over.  \<^verbatim>\<open>Remove Stop\<close> is rendered only while
  \<^verbatim>\<open>waypoints.length > 0\<close>, and the recenter control only while auto-centering is
  off; \<open>isLoaded\<close> is set by the SDK loader, not by any of these events.
\<close>

datatype nav_event =
    PositionUpdate nav_state LatLng
  | SelectStop stop_candidate
  | PlaceSelect string
  | RemoveStop
  | DragStart
  | Recenter

fun nav_event_enabled :: "nav_event \<Rightarrow> nav_state \<Rightarrow> bool" where
  "nav_event_enabled RemoveStop s = (waypoints s \<noteq> [])"
| "nav_event_enabled Recenter s = (\<not> isAutoCentering s)"
| "nav_event_enabled _ s = True"

fun nav_step ::
  "google_sdk option \<Rightarrow> (real \<Rightarrow> real \<Rightarrow> string option) \<Rightarrow> (string \<Rightarrow> LatLng option option)
     \<Rightarrow> nav_event \<Rightarrow> nav_state \<Rightarrow> nav_state" where
  "nav_step google rg gpd (PositionUpdate cap newPos) s = on_position google rg cap newPos s"
| "nav_step google rg gpd (SelectStop placeResult) s = handleSelectStop placeResult s"
| "nav_step google rg gpd (PlaceSelect placeId) s = handlePlaceSelect gpd placeId s"
| "nav_step google rg gpd RemoveStop s = handleRemoveStop s"
| "nav_step google rg gpd DragStart s = onDragStart s"
| "nav_step google rg gpd Recenter s = recenterMap s"

text \<open>A run of position updates, each callback closing over the state it finds.\<close>

fun track ::
  "google_sdk option \<Rightarrow> (real \<Rightarrow> real \<Rightarrow> string option) \<Rightarrow> LatLng list \<Rightarrow> nav_state \<Rightarrow> nav_state" where
  "track google rg [] s = s"
| "track google rg (p # ps) s = track google rg ps (on_position google rg s p s)"

text \<open>
  A concrete navigation state: a loaded map and a route of one leg with two steps.  The
  SDK of the examples reports 0 between equal points and 1000 between different ones.
\<close>

definition example_sdk :: google_sdk where
  "example_sdk =
     \<lparr>computeDistanceBetween = (\<lambda>p q. if p = q then 0 else 1000),
      AutocompleteService_getPlacePredictions =
        (\<lambda>q. (Some [\<lparr>ap_place_id = ''p1'', ap_description = q @ '' Road, Pune'',
                        ap_main_text = q @ '' Road'', ap_secondary_text = ''Pune''\<rparr>], OK))\<rparr>"

definition example_directions :: DirectionsResult where
  "example_directions =
     \<lparr>routes = [\<lparr>legs = [\<lparr>steps = [\<lparr>end_location = LatLng 10 20, instructions = ''Turn left''\<rparr>,
                                       \<lparr>end_location = LatLng 11 21, instructions = ''Arrive''\<rparr>],
                             leg_distance_text = Some ''150 km'',
                             leg_duration_text = Some ''2 hours''\<rparr>]\<rparr>]\<rparr>"

definition example_nav :: nav_state where
  "example_nav =
     \<lparr>isLoaded = True, trip_from = ''Pune'', trip_to = ''Lonavala'', waypoints = [],
      waypoints_ref = 0, directions = Some example_directions, currentLegIndex = 0,
      currentStepIndex = 0, distanceToNextTurn = NoText, isAutoCentering = True,
      userLocation = None, mapRef = Some None, mapZoom = 15, mapError = None,
      showAddStopModal = False, isStopsListVisible = False, stopSearchResults = None\<rparr>"

section \<open>Application state store: vehicles of the user profile\<close>

text \<open>
  \<^verbatim>\<open>UserProfile\<close> and \<^verbatim>\<open>Vehicle\<close> as the store uses them.  The handlers copy the
  profile with the spread operator, so whatever further fields a profile carries are the
  record's extension part.  The \<^verbatim>\<open>user\<close> state is \<^verbatim>\<open>UserProfile | null\<close>.
\<close>

record Vehicle =
  vehicle_id :: string
  regNumber :: string

record UserProfile =
  user_id :: string
  name :: string
  phone :: string
  twoWheelers :: "Vehicle list"
  fourWheelers :: "Vehicle list"

datatype vehicle_type = TwoWheelers | FourWheelers

text \<open>\<^verbatim>\<open>currentUser[type]\<close> and \<^verbatim>\<open>{...currentUser, [type]: vs}\<close>.\<close>

fun get_vehicles :: "vehicle_type \<Rightarrow> 'a UserProfile_scheme \<Rightarrow> Vehicle list" where
  "get_vehicles TwoWheelers u = twoWheelers u"
| "get_vehicles FourWheelers u = fourWheelers u"

fun set_vehicles ::
  "vehicle_type \<Rightarrow> Vehicle list \<Rightarrow> 'a UserProfile_scheme \<Rightarrow> 'a UserProfile_scheme" where
  "set_vehicles TwoWheelers vs u = u\<lparr>twoWheelers := vs\<rparr>"
| "set_vehicles FourWheelers vs u = u\<lparr>fourWheelers := vs\<rparr>"

fun other_type :: "vehicle_type \<Rightarrow> vehicle_type" where
  "other_type TwoWheelers = FourWheelers"
| "other_type FourWheelers = TwoWheelers"

text \<open>
  The three updater functions handed to \<^verbatim>\<open>setUser\<close>.  \<open>now\<close> is
  \<^verbatim>\<open>String(Date.now())\<close>, the clock reading that becomes the new vehicle's id.
\<close>

definition addVehicle ::
  "vehicle_type \<Rightarrow> string \<Rightarrow> string \<Rightarrow> 'a UserProfile_scheme option \<Rightarrow> 'a UserProfile_scheme option" where
  "addVehicle type reg now currentUser =
     (case currentUser of
        None \<Rightarrow> currentUser
      | Some u \<Rightarrow>
          if reg = [] then currentUser
          else (let newVehicle = \<lparr>vehicle_id = now, regNumber = reg\<rparr>
                in Some (set_vehicles type (get_vehicles type u @ [newVehicle]) u)))"

definition removeVehicle ::
  "vehicle_type \<Rightarrow> string \<Rightarrow> 'a UserProfile_scheme option \<Rightarrow> 'a UserProfile_scheme option" where
  "removeVehicle type vid currentUser =
     (case currentUser of
        None \<Rightarrow> None
      | Some u \<Rightarrow> Some (set_vehicles type (filter (\<lambda>v. vehicle_id v \<noteq> vid) (get_vehicles type u)) u))"

definition updateVehicle ::
  "vehicle_type \<Rightarrow> Vehicle \<Rightarrow> 'a UserProfile_scheme option \<Rightarrow> 'a UserProfile_scheme option" where
  "updateVehicle type vehicle currentUser =
     (case currentUser of
        None \<Rightarrow> None
      | Some u \<Rightarrow>
          (let updatedVehicles =
                 map (\<lambda>v. if vehicle_id v = vehicle_id vehicle
                          then v\<lparr>regNumber := regNumber vehicle\<rparr> else v)
                     (get_vehicles type u)
           in Some (set_vehicles type updatedVehicles u)))"

definition example_user :: UserProfile where
  "example_user =
     \<lparr>user_id = ''u1'', name = ''Asha'', phone = ''9999999999'',
      twoWheelers = [\<lparr>vehicle_id = ''tw0'', regNumber = ''MH12AB1234''\<rparr>],
      fourWheelers = [\<lparr>vehicle_id = ''fw0'', regNumber = ''MH14CD5678''\<rparr>]\<rparr>"

section \<open>Backend: trips\<close>

datatype trip_type = one_way | round_trip

datatype trip_status = planned | active | completed | cancelled

record Stop =
  stop_location :: LatLng
  stop_name :: "string option"
  stop_stopover :: bool

record Trip =
  userId :: string
  trip_origin :: string
  trip_destination :: string
  startDate :: string
  startTime :: string
  vehicle :: "string option"
  customVehicle :: "(string \<times> real) option"
  travelers :: nat
  tripType :: trip_type
  status :: trip_status
  stops :: "Stop list"

text \<open>
  The trip collection: documents by \<^verbatim>\<open>_id\<close>.  \<open>db_error\<close> is the error that every
  query raises while the store cannot be reached (\<open>None\<close> when it can).
\<close>

record trip_store =
  docs :: "string \<rightharpoonup> Trip"
  db_error :: "string option"

text \<open>
  A request as the controllers read it: \<^verbatim>\<open>req.params.id\<close>, \<^verbatim>\<open>req.user\<close> (its
  \<^verbatim>\<open>_id\<close>; the field is optional in \<^verbatim>\<open>AuthRequest\<close>) and \<^verbatim>\<open>req.body\<close>, the latter
  as the document update that the store derives from it.
\<close>

record request =
  params_id :: string
  req_user :: "string option"
  body :: "Trip \<Rightarrow> Trip"

datatype response_json = Message string | TripJson "Trip option"

record response =
  status_code :: nat
  json :: response_json

definition Trip_findById :: "trip_store \<Rightarrow> string \<Rightarrow> string + Trip option" where
  "Trip_findById db i = (case db_error db of Some e \<Rightarrow> Inl e | None \<Rightarrow> Inr (docs db i))"

definition Trip_findByIdAndUpdate ::
  "trip_store \<Rightarrow> string \<Rightarrow> (Trip \<Rightarrow> Trip) \<Rightarrow> string + (Trip option \<times> trip_store)" where
  "Trip_findByIdAndUpdate db i upd =
     (case db_error db of
        Some e \<Rightarrow> Inl e
      | None \<Rightarrow>
          (case docs db i of
             None \<Rightarrow> Inr (None, db)
           | Some t \<Rightarrow> Inr (Some (upd t), db\<lparr>docs := (docs db)(i \<mapsto> upd t)\<rparr>)))"

definition Trip_deleteOne :: "trip_store \<Rightarrow> string \<Rightarrow> string + trip_store" where
  "Trip_deleteOne db i =
     (case db_error db of Some e \<Rightarrow> Inl e | None \<Rightarrow> Inr (db\<lparr>docs := (docs db)(i := None)\<rparr>))"

text \<open>The message of the \<^verbatim>\<open>TypeError\<close> raised by \<^verbatim>\<open>req.user._id\<close> when \<^verbatim>\<open>req.user\<close> is undefined.\<close>

definition undefined_user_message :: string where
  "undefined_user_message = ''Cannot read properties of undefined (reading _id)''"

definition updateTrip :: "trip_store \<Rightarrow> request \<Rightarrow> response \<times> trip_store" where
  "updateTrip db req =
     (case Trip_findById db (params_id req) of
        Inl e \<Rightarrow> (\<lparr>status_code = 500, json = Message e\<rparr>, db)
      | Inr None \<Rightarrow> (\<lparr>status_code = 404, json = Message ''Trip not found''\<rparr>, db)
      | Inr (Some trip) \<Rightarrow>
          (case req_user req of
             None \<Rightarrow> (\<lparr>status_code = 500, json = Message undefined_user_message\<rparr>, db)
           | Some uid \<Rightarrow>
               if userId trip \<noteq> uid
               then (\<lparr>status_code = 401, json = Message ''Not authorized''\<rparr>, db)
               else (case Trip_findByIdAndUpdate db (params_id req) (body req) of
                       Inl e \<Rightarrow> (\<lparr>status_code = 500, json = Message e\<rparr>, db)
                     | Inr (updatedTrip, db') \<Rightarrow>
                         (\<lparr>status_code = 200, json = TripJson updatedTrip\<rparr>, db'))))"

definition deleteTrip :: "trip_store \<Rightarrow> request \<Rightarrow> response \<times> trip_store" where
  "deleteTrip db req =
     (case Trip_findById db (params_id req) of
        Inl e \<Rightarrow> (\<lparr>status_code = 500, json = Message e\<rparr>, db)
      | Inr None \<Rightarrow> (\<lparr>status_code = 404, json = Message ''Trip not found''\<rparr>, db)
      | Inr (Some trip) \<Rightarrow>
          (case req_user req of
             None \<Rightarrow> (\<lparr>status_code = 500, json = Message undefined_user_message\<rparr>, db)
           | Some uid \<Rightarrow>
               if userId trip \<noteq> uid
               then (\<lparr>status_code = 401, json = Message ''Not authorized''\<rparr>, db)
               else (case Trip_deleteOne db (params_id req) of
                       Inl e \<Rightarrow> (\<lparr>status_code = 500, json = Message e\<rparr>, db)
                     | Inr db' \<Rightarrow>
                         (\<lparr>status_code = 200, json = Message ''Trip removed''\<rparr>, db'))))"

definition example_trip :: Trip where
  "example_trip =
     \<lparr>userId = ''alice'', trip_origin = ''Pune'', trip_destination = ''Lonavala'',
      startDate = ''2024-01-05'', startTime = ''09:30 AM'', vehicle = Some ''MH12AB1234'',
      customVehicle = None, travelers = 1, tripType = one_way, status = planned, stops = []\<rparr>"

definition example_store :: trip_store where
  "example_store = \<lparr>docs = [''t1'' \<mapsto> example_trip], db_error = None\<rparr>"

definition example_request :: request where
  "example_request =
     \<lparr>params_id = ''t1'', req_user = Some ''mallory'',
      body = (\<lambda>t. t\<lparr>trip_destination := ''Goa'', userId := ''mallory''\<rparr>)\<rparr>"

section \<open>Map provider adapter: HTTP operations\<close>

text \<open>
  JSON values as JavaScript sees them after \<^verbatim>\<open>response.json()\<close>, with
  \<^verbatim>\<open>undefined\<close> for what a property read may yield.
\<close>

datatype jsvalue =
    JUndefined
  | JNull
  | JBool bool
  | JNum real
  | JStr string
  | JArr "jsvalue list"
  | JObj "(string \<times> jsvalue) list"

text \<open>
  The outcome of \<^verbatim>\<open>await fetch(url)\<close> followed by \<^verbatim>\<open>await response.json()\<close>: the
  request is rejected, the body is not JSON, or a value is parsed.  The first two throw.
\<close>

datatype fetch_outcome = Rejected | NotJson | Parsed jsvalue

text \<open>What the adapter asks of the outside world.\<close>

datatype provider_call = Fetch string | AutocompleteService string

fun truthy :: "jsvalue \<Rightarrow> bool" where
  "truthy JUndefined = False"
| "truthy JNull = False"
| "truthy (JBool b) = b"
| "truthy (JNum x) = (x \<noteq> 0)"
| "truthy (JStr s) = (s \<noteq> [])"
| "truthy (JArr xs) = True"
| "truthy (JObj kvs) = True"

text \<open>
  \<^verbatim>\<open>v.key\<close> for the keys the adapter reads: \<open>None\<close> is the \<^verbatim>\<open>TypeError\<close> of reading
  a property of \<^verbatim>\<open>null\<close> or \<^verbatim>\<open>undefined\<close>; an object without the key, and any other
  value, gives \<^verbatim>\<open>undefined\<close>.
\<close>

fun js_get :: "jsvalue \<Rightarrow> string \<Rightarrow> jsvalue option" where
  "js_get JUndefined k = None"
| "js_get JNull k = None"
| "js_get (JObj kvs) k = (case map_of kvs k of Some v \<Rightarrow> Some v | None \<Rightarrow> Some JUndefined)"
| "js_get v k = Some JUndefined"

text \<open>\<^verbatim>\<open>v?.key\<close>: \<^verbatim>\<open>undefined\<close> instead of the error.\<close>

definition js_get_opt :: "jsvalue \<Rightarrow> string \<Rightarrow> jsvalue" where
  "js_get_opt v k = (case js_get v k of None \<Rightarrow> JUndefined | Some x \<Rightarrow> x)"

text \<open>\<^verbatim>\<open>a || b\<close>.\<close>

definition js_or :: "jsvalue \<Rightarrow> jsvalue \<Rightarrow> jsvalue" where
  "js_or a b = (if truthy a then a else b)"

text \<open>\<^verbatim>\<open>xs.join(sep)\<close> on an array of strings.\<close>

fun join :: "string \<Rightarrow> string list \<Rightarrow> string" where
  "join sep [] = []"
| "join sep [x] = x"
| "join sep (x # y # ys) = x @ sep @ join sep (y # ys)"

text \<open>
  The environment of the HTTP implementation: the API key, \<^verbatim>\<open>encodeURIComponent\<close> and
  the network.
\<close>

record ola_env =
  API_KEY :: string
  encodeURIComponent :: "string \<Rightarrow> string"
  fetch :: "string \<Rightarrow> fetch_outcome"

text \<open>The object built for one prediction; \<open>None\<close> when building it throws.\<close>

definition ola_prediction :: "jsvalue \<Rightarrow> jsvalue option" where
  "ola_prediction p =
     (case js_get p ''description'' of
        None \<Rightarrow> None
      | Some d \<Rightarrow>
          (case js_get p ''place_id'' of
             None \<Rightarrow> None
           | Some pid \<Rightarrow>
               (case js_get p ''structured_formatting'' of
                  None \<Rightarrow> None
                | Some sf \<Rightarrow>
                    Some (JObj [(''description'', d),
                                (''place_id'', pid),
                                (''structured_formatting'',
                                 JObj [(''main_text'', js_or (js_get_opt sf ''main_text'') d),
                                       (''secondary_text'',
                                        js_or (js_get_opt sf ''secondary_text'') (JStr []))])]))))"

text \<open>\<^verbatim>\<open>xs.map(f)\<close> where \<open>f\<close> may throw: the first error aborts the whole map.\<close>

fun map_throwing :: "('a \<Rightarrow> 'b option) \<Rightarrow> 'a list \<Rightarrow> 'b list option" where
  "map_throwing f [] = Some []"
| "map_throwing f (x # xs) =
     (case f x of
        None \<Rightarrow> None
      | Some y \<Rightarrow> (case map_throwing f xs of None \<Rightarrow> None | Some ys \<Rightarrow> Some (y # ys)))"

text \<open>
  \<^verbatim>\<open>getPlacePredictions\<close>, HTTP implementation.  The result is the list of calls issued
  and the returned array.  Every error after the guard is caught and gives \<^verbatim>\<open>[]\<close>;
  this includes a truthy \<^verbatim>\<open>predictions\<close> that is not an array (\<^verbatim>\<open>.map\<close> is then not
  a function).
\<close>

definition autocomplete_url :: "ola_env \<Rightarrow> string \<Rightarrow> string" where
  "autocomplete_url env input =
     ''https://api.olamaps.io/places/v1/autocomplete?input='' @ encodeURIComponent env input
       @ ''&api_key='' @ API_KEY env"

definition getPlacePredictions :: "ola_env \<Rightarrow> string \<Rightarrow> provider_call list \<times> jsvalue list" where
  "getPlacePredictions env input =
     (if input = [] \<or> length input < 3 then ([], [])
      else (let url = autocomplete_url env input
            in ([Fetch url],
                (case fetch env url of
                   Parsed data \<Rightarrow>
                     (if truthy data \<and> truthy (js_get_opt data ''predictions'')
                      then (case js_get_opt data ''predictions'' of
                              JArr ps \<Rightarrow>
                                (case map_throwing ola_prediction ps of
                                   None \<Rightarrow> []
                                 | Some rs \<Rightarrow> rs)
                            | _ \<Rightarrow> [])
                      else [])
                 | _ \<Rightarrow> []))))"

text \<open>\<^verbatim>\<open>getDistanceMatrix\<close>: the parsed body on success, a made-up matrix on any error.\<close>

definition distanceMatrix_url :: "ola_env \<Rightarrow> string list \<Rightarrow> string list \<Rightarrow> string" where
  "distanceMatrix_url env origins destinations =
     ''https://api.olamaps.io/routing/v1/distanceMatrix?origins='' @ join ''|'' origins
       @ ''&destinations='' @ join ''|'' destinations @ ''&api_key='' @ API_KEY env"

definition fallback_element :: jsvalue where
  "fallback_element =
     JObj [(''status'', JStr ''OK''),
           (''distance'', JObj [(''value'', JNum 1000), (''text'', JStr ''1 km'')]),
           (''duration'', JObj [(''value'', JNum 600), (''text'', JStr ''10 mins'')])]"

definition fallback_matrix :: "string list \<Rightarrow> string list \<Rightarrow> jsvalue" where
  "fallback_matrix origins destinations =
     JObj [(''rows'',
            JArr (map (\<lambda>orig. JObj [(''elements'', JArr (map (\<lambda>dest. fallback_element) destinations))])
                      origins))]"

definition getDistanceMatrix ::
  "ola_env \<Rightarrow> string list \<Rightarrow> string list \<Rightarrow> provider_call list \<times> jsvalue" where
  "getDistanceMatrix env origins destinations =
     (let url = distanceMatrix_url env origins destinations
      in ([Fetch url],
          (case fetch env url of
             Parsed data \<Rightarrow> data
           | _ \<Rightarrow> fallback_matrix origins destinations)))"

definition offline_env :: ola_env where
  "offline_env = \<lparr>API_KEY = ''key'', encodeURIComponent = (\<lambda>s. s), fetch = (\<lambda>url. Rejected)\<rparr>"

text \<open>
  \<^verbatim>\<open>getPlacePredictions\<close>, SDK implementation: it forwards to
  \<^verbatim>\<open>getAutocompletePredictions\<close>, which asks the provider's autocomplete service
  unless the SDK is absent.
\<close>

record place_suggestion =
  sg_id :: string
  sg_place_id :: string
  sg_name :: string
  sg_vicinity :: string
  sg_main_text :: string
  sg_secondary_text :: string

definition getAutocompletePredictions ::
  "google_sdk option \<Rightarrow> string \<Rightarrow> provider_call list \<times> place_suggestion list" where
  "getAutocompletePredictions google query =
     (case google of
        None \<Rightarrow> ([], [])
      | Some g \<Rightarrow>
          ([AutocompleteService query],
           (case AutocompleteService_getPlacePredictions g query of
              (predictions, st) \<Rightarrow>
                (case predictions of
                   None \<Rightarrow> []
                 | Some ps \<Rightarrow>
                     if st \<noteq> OK then []
                     else map (\<lambda>p. \<lparr>sg_id = ap_place_id p,
                                      sg_place_id = ap_place_id p,
                                      sg_name = ap_description p,
                                      sg_vicinity = ap_secondary_text p,
                                      sg_main_text = ap_main_text p,
                                      sg_secondary_text = ap_secondary_text p\<rparr>) ps))))"

definition getPlacePredictions_google ::
  "google_sdk option \<Rightarrow> string \<Rightarrow> provider_call list \<times> place_suggestion list" where
  "getPlacePredictions_google google query = getAutocompletePredictions google query"

section \<open>Planner flow\<close>

datatype Screen = Splash | Login | Home | Main | ProfileSetup1 | ProfileSetup2

record Stay =
  stay_id :: string
  stay_name :: string
  stay_distance :: string
  stay_rating :: real
  stay_image :: string

datatype planner_input = destination_input | stay_input

text \<open>The local state of \<^verbatim>\<open>PlannerScreen\<close>, one field per \<^verbatim>\<open>useState\<close>.\<close>

record planner_state =
  step :: nat
  destination :: string
  hasStayPlanned :: bool
  stayLocation :: string
  stays :: "Stay list"
  isLoadingStays :: bool
  staysError :: "string option"
  selectedStayId :: "string option"
  nearbyAttractions :: "Stay list"
  isLoadingAttractions :: bool
  attractionsError :: "string option"
  locationError :: "string option"
  isFetchingLocation :: bool
  destinationPredictions :: "place_suggestion list"
  stayPredictions :: "place_suggestion list"
  activePlannerInput :: "planner_input option"
  micPermissionError :: "string option"
  isListeningFor :: "planner_input option"

text \<open>The values the \<^verbatim>\<open>useState\<close> calls start from.\<close>

definition initial_planner :: planner_state where
  "initial_planner =
     \<lparr>step = 1, destination = [], hasStayPlanned = False, stayLocation = [], stays = [],
      isLoadingStays = False, staysError = None, selectedStayId = None, nearbyAttractions = [],
      isLoadingAttractions = False, attractionsError = None, locationError = None,
      isFetchingLocation = False, destinationPredictions = [], stayPredictions = [],
      activePlannerInput = None, micPermissionError = None, isListeningFor = None\<rparr>"

text \<open>
  \<^verbatim>\<open>completeAndGoHome\<close>: five local setters, then \<^verbatim>\<open>setScreen(Screen.Home)\<close> on the
  application's screen, which is returned as the second component.
\<close>

definition completeAndGoHome :: "planner_state \<Rightarrow> planner_state \<times> Screen" where
  "completeAndGoHome s =
     (s\<lparr>destination := ''Current Location'',
        hasStayPlanned := False,
        stayLocation := [],
        selectedStayId := None,
        step := 1\<rparr>,
      Home)"

text \<open>
  \<^verbatim>\<open>stayName\<close>: the typed stay location, or the name of the selected stay
  (\<^verbatim>\<open>undefined\<close> when none is found).
\<close>

definition stayName :: "planner_state \<Rightarrow> string option" where
  "stayName s =
     (if hasStayPlanned s then Some (stayLocation s)
      else map_option stay_name (find (\<lambda>st. Some (stay_id st) = selectedStayId s) (stays s)))"

definition example_attraction :: Stay where
  "example_attraction =
     \<lparr>stay_id = ''a1'', stay_name = ''Tiger Point'', stay_distance = ''Lonavala'',
      stay_rating = 4.5, stay_image = ''tiger.jpg''\<rparr>"

definition example_planner :: planner_state where
  "example_planner =
     initial_planner\<lparr>step := 3, destination := ''Lonavala'', hasStayPlanned := True,
                     stayLocation := ''Hilltop Inn'', nearbyAttractions := [example_attraction]\<rparr>"

section \<open>Application state store: saved routes\<close>

text \<open>
  A saved route, and what \<^verbatim>\<open>addRoute\<close> posts (\<^verbatim>\<open>Omit<SavedRoute, 'id' | 'travelTime'>\<close>).
\<close>

record SavedRoute =
  route_id :: string
  route_origin :: string
  route_destination :: string
  route_stay :: string
  travelTime :: string

record route_data =
  data_origin :: string
  data_destination :: string
  data_stay :: string

text \<open>
  The backend as the store sees it during one action: the answer to
  \<^verbatim>\<open>POST /saved-routes\<close> (\<open>None\<close> when the request fails) and whether
  \<^verbatim>\<open>DELETE /saved-routes/:id\<close> succeeds.
\<close>

record routes_api =
  post_saved_route :: "route_data \<Rightarrow> SavedRoute option"
  delete_saved_route :: "string \<Rightarrow> bool"

definition addRoute :: "routes_api \<Rightarrow> route_data \<Rightarrow> SavedRoute list \<Rightarrow> SavedRoute list" where
  "addRoute api routeData savedRoutes =
     (case post_saved_route api routeData of
        Some response_data \<Rightarrow> response_data # savedRoutes
      | None \<Rightarrow> savedRoutes)"

definition removeRoute :: "routes_api \<Rightarrow> string \<Rightarrow> SavedRoute list \<Rightarrow> SavedRoute list" where
  "removeRoute api rid savedRoutes =
     (if delete_saved_route api rid then filter (\<lambda>r. route_id r \<noteq> rid) savedRoutes
      else savedRoutes)"

definition reverseRoute :: "string \<Rightarrow> SavedRoute list \<Rightarrow> SavedRoute list" where
  "reverseRoute rid savedRoutes =
     map (\<lambda>r. if route_id r = rid
              then r\<lparr>route_origin := route_destination r, route_destination := route_origin r\<rparr>
              else r)
         savedRoutes"

text \<open>
  \<^verbatim>\<open>handleToggleDestination\<close>.  The handler closes over the \<^verbatim>\<open>stayName\<close> and the
  \<^verbatim>\<open>savedRoutes\<close> of the render that created it, and its existence check reads that
  list; \<^verbatim>\<open>addRoute\<close> and \<^verbatim>\<open>removeRoute\<close> await the backend and then update the
  store's list as it is at that moment (\<^verbatim>\<open>setSavedRoutes(prev => ...)\<close>).  So the
  rendered list \<open>savedRoutes\<close> and the store's list \<open>store\<close> are separate arguments;
  the store's new list is returned.
\<close>

definition handleToggleDestination ::
  "routes_api \<Rightarrow> string option \<Rightarrow> Stay \<Rightarrow> SavedRoute list \<Rightarrow> SavedRoute list
     \<Rightarrow> SavedRoute list" where
  "handleToggleDestination api stayNm dest savedRoutes store =
     (case stayNm of
        None \<Rightarrow> store
      | Some sn \<Rightarrow>
          if sn = [] then store
          else (case find (\<lambda>r. route_origin r = sn \<and> route_destination r = stay_name dest)
                          savedRoutes of
                  Some existingRoute \<Rightarrow> removeRoute api (route_id existingRoute) store
                | None \<Rightarrow>
                    addRoute api \<lparr>data_origin = sn, data_destination = stay_name dest,
                                  data_stay = sn\<rparr> store))"

text \<open>
  A toggle made once every earlier request has been answered and the screen has rendered
  again: the list the handler sees is the store's list.
\<close>

definition toggle_settled ::
  "routes_api \<Rightarrow> string option \<Rightarrow> Stay \<Rightarrow> SavedRoute list \<Rightarrow> SavedRoute list" where
  "toggle_settled api stayNm dest savedRoutes =
     handleToggleDestination api stayNm dest savedRoutes savedRoutes"

text \<open>The (origin, destination) pairs of a saved-route list: its membership.\<close>

definition route_pairs :: "SavedRoute list \<Rightarrow> (string \<times> string) set" where
  "route_pairs savedRoutes = set (map (\<lambda>r. (route_origin r, route_destination r)) savedRoutes)"

text \<open>A backend that stores what is posted under the given id, and deletes on request.\<close>

definition echo_api :: "string \<Rightarrow> routes_api" where
  "echo_api new_id =
     \<lparr>post_saved_route =
        (\<lambda>d. Some \<lparr>route_id = new_id, route_origin = data_origin d,
                    route_destination = data_destination d, route_stay = data_stay d,
                    travelTime = []\<rparr>),
      delete_saved_route = (\<lambda>i. True)\<rparr>"

definition example_route :: "string \<Rightarrow> SavedRoute" where
  "example_route i =
     \<lparr>route_id = i, route_origin = ''Hilltop Inn'', route_destination = ''Tiger Point'',
      route_stay = ''Hilltop Inn'', travelTime = []\<rparr>"

text \<open>
  What the round trip of a toggle needs from the backend during one toggle: deletions
  succeed, and the route posted comes back with the posted origin and destination under an
  id that no saved route has yet.
\<close>

definition backend_accepts :: "routes_api \<Rightarrow> route_data \<Rightarrow> SavedRoute list \<Rightarrow> bool" where
  "backend_accepts api d savedRoutes =
     ((\<forall>i. delete_saved_route api i)
      \<and> (case post_saved_route api d of
            None \<Rightarrow> False
          | Some r \<Rightarrow> route_origin r = data_origin d \<and> route_destination r = data_destination d
                      \<and> route_id r \<notin> set (map route_id savedRoutes)))"

text \<open>
  A saved-route list that the store's own actions produce from the empty list: two routes
  are added by settled toggles, then the second is reversed.
\<close>

definition duplicated_routes :: "SavedRoute list" where
  "duplicated_routes =
     reverseRoute ''r2''
       (toggle_settled (echo_api ''r2'') (Some ''Tiger Point'')
          (example_attraction\<lparr>stay_name := ''Hilltop Inn''\<rparr>)
          (toggle_settled (echo_api ''r1'') (Some ''Hilltop Inn'') example_attraction []))"

text \<open>
  The bodies of the planner's two debounced autocomplete effects (\<^verbatim>\<open>fetchPredictions\<close>),
  which call the SDK implementation of \<^verbatim>\<open>getPlacePredictions\<close>: the calls issued and
  the state after the setter.  An effect reads the values of the render that created it
  (\<open>render\<close>); its setter acts on the state of that moment (\<open>st\<close>).
\<close>

definition fetchDestinationPredictions ::
  "google_sdk option \<Rightarrow> planner_state \<Rightarrow> planner_state \<Rightarrow> provider_call list \<times> planner_state" where
  "fetchDestinationPredictions google render st =
     (if activePlannerInput render = Some destination_input \<and> destination render \<noteq> []
         \<and> length (destination render) > 2 \<and> destination render \<noteq> ''Current Location''
      then (case getPlacePredictions_google google (destination render) of
              (calls, results) \<Rightarrow> (calls, st\<lparr>destinationPredictions := results\<rparr>))
      else ([], st\<lparr>destinationPredictions := []\<rparr>))"

definition fetchStayPredictions ::
  "google_sdk option \<Rightarrow> planner_state \<Rightarrow> planner_state \<Rightarrow> provider_call list \<times> planner_state" where
  "fetchStayPredictions google render st =
     (if activePlannerInput render = Some stay_input \<and> stayLocation render \<noteq> []
         \<and> length (stayLocation render) > 2
      then (case getPlacePredictions_google google
                   (stayLocation render
                      @ (if destination render \<noteq> [] then '' near '' @ destination render else []))
            of (calls, results) \<Rightarrow> (calls, st\<lparr>stayPredictions := results\<rparr>))
      else ([], st\<lparr>stayPredictions := []\<rparr>))"

text \<open>
  The stays effect and the attractions effect.  \<open>found\<close> is what the provider search
  yields, already mapped to \<^verbatim>\<open>Stay\<close> entries (\<^verbatim>\<open>formattedStays\<close>,
  \<^verbatim>\<open>formattedAttractions\<close>); the empty list stands for no result.
\<close>

definition fetchStays :: "Stay list \<Rightarrow> planner_state \<Rightarrow> planner_state \<Rightarrow> planner_state" where
  "fetchStays found render st =
     (if step render = 2 \<and> \<not> hasStayPlanned render \<and> destination render \<noteq> []
         \<and> destination render \<noteq> ''Current Location''
      then (let st1 = st\<lparr>isLoadingStays := True, staysError := None, stays := [],
                          selectedStayId := None\<rparr>;
                st2 = (if found \<noteq> [] then st1\<lparr>stays := take 15 found\<rparr>
                       else st1\<lparr>staysError :=
                              Some ''Could not find any stays. Please try a different destination.''\<rparr>)
            in st2\<lparr>isLoadingStays := False\<rparr>)
      else st)"

definition stays_effect :: "Stay list \<Rightarrow> planner_state \<Rightarrow> planner_state \<Rightarrow> planner_state" where
  "stays_effect found render st =
     (if step render = 2 \<and> \<not> hasStayPlanned render \<and> destination render \<noteq> []
      then fetchStays found render st
      else if step render < 2 then st\<lparr>stays := [], staysError := None\<rparr>
      else st)"

definition fetchAttractions :: "Stay list \<Rightarrow> planner_state \<Rightarrow> planner_state \<Rightarrow> planner_state" where
  "fetchAttractions found render st =
     (if step render = 3 \<and> destination render \<noteq> [] \<and> destination render \<noteq> ''Current Location''
      then (let st1 = st\<lparr>isLoadingAttractions := True, attractionsError := None,
                          nearbyAttractions := []\<rparr>;
                st2 = (if found \<noteq> [] then st1\<lparr>nearbyAttractions := take 15 found\<rparr>
                       else st1\<lparr>attractionsError :=
                              Some ''Could not find attractions for this destination.''\<rparr>)
            in st2\<lparr>isLoadingAttractions := False\<rparr>)
      else st)"

definition attractions_effect :: "Stay list \<Rightarrow> planner_state \<Rightarrow> planner_state \<Rightarrow> planner_state" where
  "attractions_effect found render st =
     (if step render = 3 \<and> destination render \<noteq> [] then fetchAttractions found render st else st)"

text \<open>
  What the planner's effects do after a render, while the screen stays mounted: each
  effect runs if one of its dependencies differs from the previous render, the stays and
  attractions effects at once and the two debounced ones when their timers fire.
\<close>

record planner_env =
  env_google :: "google_sdk option"
  found_stays :: "Stay list"
  found_attractions :: "Stay list"

definition effects_after :: "planner_env \<Rightarrow> planner_state \<Rightarrow> planner_state \<Rightarrow> planner_state" where
  "effects_after env prev render =
     (let st1 = (if (step prev, hasStayPlanned prev, destination prev)
                     = (step render, hasStayPlanned render, destination render)
                 then render else stays_effect (found_stays env) render render);
          st2 = (if (step prev, destination prev) = (step render, destination render)
                 then st1 else attractions_effect (found_attractions env) render st1);
          st3 = (if (destination prev, activePlannerInput prev)
                     = (destination render, activePlannerInput render)
                 then st2 else snd (fetchDestinationPredictions (env_google env) render st2));
          st4 = (if (stayLocation prev, activePlannerInput prev, destination prev)
                     = (stayLocation render, activePlannerInput render, destination render)
                 then st3 else snd (fetchStayPredictions (env_google env) render st3))
      in st4)"

text \<open>
  The terminal action of planner state 3: the click handler \<^verbatim>\<open>completeAndGoHome\<close>
  followed by the effects of the render it causes.
\<close>

definition terminal_action :: "planner_env \<Rightarrow> planner_state \<Rightarrow> planner_state \<times> Screen" where
  "terminal_action env s =
     (case completeAndGoHome s of (render, scr) \<Rightarrow> (effects_after env s render, scr))"

definition example_env :: planner_env where
  "example_env = \<lparr>env_google = Some example_sdk, found_stays = [], found_attractions = []\<rparr>"

text \<open>A backend that cannot be reached.\<close>

definition offline_api :: routes_api where
  "offline_api = \<lparr>post_saved_route = (\<lambda>d. None), delete_saved_route = (\<lambda>i. False)\<rparr>"

section \<open>Properties of the navigation flow\<close>

lemma turn_by_turn_index:
  "currentStepIndex (turn_by_turn google cap newPos s) =
     (if should_advance google (directions cap) (currentStepIndex cap) newPos
      then currentStepIndex s + 1 else currentStepIndex s)"
  by (simp add: turn_by_turn_def should_advance_def Let_def split: option.splits)

lemma on_position_index:
  "currentStepIndex (on_position google rg cap newPos s) =
     (if should_advance google (directions cap) (currentStepIndex cap) newPos
      then currentStepIndex s + 1 else currentStepIndex s)"
  by (simp add: on_position_def turn_by_turn_index Let_def split: option.splits LatLng.splits)

lemma should_advance_iff:
  "should_advance google d idx newPos \<longleftrightarrow>
     (\<exists>sts step. first_leg_steps d = Some sts \<and> js_index sts idx = Some step
        \<and> step_distance google newPos step < 40 \<and> Suc idx < length sts)"
  by (auto simp: should_advance_def split: option.splits)

text \<open>
  Whatever render the callback closes over, a position update never lowers the step
  pointer and raises it by at most one.
\<close>

lemma step_pointer_monotone:
  "currentStepIndex s \<le> currentStepIndex (on_position google rg cap newPos s)
   \<and> currentStepIndex (on_position google rg cap newPos s) \<le> currentStepIndex s + 1"
  by (simp add: on_position_index)

text \<open>
  The pointer is raised exactly when the guard holds of the step at the index the callback
  closes over.  For a callback registered by the render that shows the pointer
  (\<open>currentStepIndex cap = currentStepIndex s\<close>, same directions) this is the step the
  pointer is at.
\<close>

lemma step_pointer_advance_condition:
  "currentStepIndex (on_position google rg cap newPos s) = currentStepIndex s + 1 \<longleftrightarrow>
     (\<exists>sts step. first_leg_steps (directions cap) = Some sts
        \<and> js_index sts (currentStepIndex cap) = Some step
        \<and> step_distance google newPos step < 40
        \<and> Suc (currentStepIndex cap) < length sts)"
  by (simp add: on_position_index should_advance_iff)

text \<open>
  Claim C1, at a position update handled by a callback that was registered before the
  pointer last moved (a second update arriving before the effect has registered the
  callback anew, for instance while the first still awaits \<open>reverseGeocode\<close>): on a leg
  of two steps the callback closes over index 0 while the pointer is already at 1.  The
  new position is at the end of step 0, so the guard passes on the closed-over index and
  the updater \<open>prev => prev + 1\<close> moves the pointer from 1 to 2, although the step the
  pointer is at ends 1000 away and has no step after it.
\<close>

theorem stale_position_callback_overruns_steps:
  "first_leg_steps (directions example_nav) =
     Some [\<lparr>end_location = LatLng 10 20, instructions = ''Turn left''\<rparr>,
           \<lparr>end_location = LatLng 11 21, instructions = ''Arrive''\<rparr>]
   \<and> currentStepIndex example_nav = 0
   \<and> currentStepIndex (example_nav\<lparr>currentStepIndex := 1\<rparr>) = 1
   \<and> step_distance (Some example_sdk) (LatLng 10 20)
         \<lparr>end_location = LatLng 11 21, instructions = ''Arrive''\<rparr> = 1000
   \<and> currentStepIndex
        (on_position (Some example_sdk) (\<lambda>lat lng. None) example_nav (LatLng 10 20)
           (example_nav\<lparr>currentStepIndex := 1\<rparr>)) = 2"
  by (simp add: on_position_def turn_by_turn_def example_nav_def example_directions_def
        example_sdk_def first_leg_steps_def js_index_def step_distance_def
        calculateDistance_google_def Let_def)

text \<open>
  Over a run of position updates the step pointer never decreases and gains at most one
  per update.
\<close>

lemma track_step_pointer:
  "currentStepIndex s \<le> currentStepIndex (track google rg ps s)
   \<and> currentStepIndex (track google rg ps s) \<le> currentStepIndex s + length ps"
proof (induction ps arbitrary: s)
  case Nil
  show ?case by simp
next
  case (Cons p ps)
  let ?s1 = "on_position google rg s p s"
  have a: "currentStepIndex s \<le> currentStepIndex ?s1 \<and> currentStepIndex ?s1 \<le> currentStepIndex s + 1"
    by (simp add: on_position_index)
  from Cons.IH [of ?s1] a show ?case by simp
qed

lemma on_position_frame:
  "isLoaded (on_position google rg cap newPos s) = isLoaded s
   \<and> trip_to (on_position google rg cap newPos s) = trip_to s
   \<and> waypoints (on_position google rg cap newPos s) = waypoints s
   \<and> waypoints_ref (on_position google rg cap newPos s) = waypoints_ref s"
  by (simp add: on_position_def turn_by_turn_def Let_def split: option.splits LatLng.splits)

lemma route_effect_same_deps: "route_deps s' = route_deps s \<Longrightarrow> route_effect rx s s' = []"
  by (simp add: route_effect_def)

lemma on_position_route_deps:
  "trip_from (on_position google rg cap newPos s) = trip_from s
   \<Longrightarrow> route_deps (on_position google rg cap newPos s) = route_deps s"
  by (simp add: route_deps_def on_position_frame)

lemma nav_step_reroute:
  assumes "nav_event_enabled e s"
    and "route_effect rx s (nav_step google rg gpd e s) \<noteq> []"
  shows "trip_from (nav_step google rg gpd e s) \<noteq> trip_from s
         \<or> trip_to (nav_step google rg gpd e s) \<noteq> trip_to s
         \<or> waypoints (nav_step google rg gpd e s) \<noteq> waypoints s"
proof (cases e)
  case (PositionUpdate cap newPos)
  with assms(2) on_position_route_deps [of google rg cap newPos s]
  show ?thesis by (auto simp: route_effect_def)
next
  case (SelectStop placeResult)
  then show ?thesis by (simp add: handleSelectStop_def Let_def)
next
  case (PlaceSelect placeId)
  show ?thesis
  proof (cases "\<exists>l. gpd placeId = Some (Some l)")
    case True
    with PlaceSelect show ?thesis by (auto simp: handlePlaceSelect_def Let_def)
  next
    case False
    then have "route_deps (handlePlaceSelect gpd placeId s) = route_deps s"
      by (auto simp: handlePlaceSelect_def route_deps_def Let_def split: option.splits)
    with assms(2) PlaceSelect show ?thesis by (simp add: route_effect_def)
  qed
next
  case RemoveStop
  with assms(1) show ?thesis by (simp add: handleRemoveStop_def)
next
  case DragStart
  with assms(2) show ?thesis by (simp add: onDragStart_def route_effect_def route_deps_def)
next
  case Recenter
  have "route_deps (recenterMap s) = route_deps s"
    by (simp add: recenterMap_def route_deps_def split: option.splits)
  with assms(2) Recenter show ?thesis by (simp add: route_effect_def)
qed

lemma on_position_only_tracks:
  assumes "trip_from (on_position google rg cap newPos s) = trip_from s"
  shows "on_position google rg cap newPos s =
           s\<lparr>userLocation := Some newPos,
             mapRef := mapRef (on_position google rg cap newPos s),
             distanceToNextTurn := distanceToNextTurn (on_position google rg cap newPos s),
             currentStepIndex := currentStepIndex (on_position google rg cap newPos s)\<rparr>"
  using assms
  by (simp add: on_position_def turn_by_turn_def Let_def split: option.splits LatLng.splits if_splits)

text \<open>
  Claim C4: after a navigation event the route effect issues a directions request only
  if the event changed the origin, the destination or the waypoint sequence; a position
  update never changes the destination or the waypoints, and one that leaves the origin
  as it was issues no request: it records the position, moves the camera (when
  auto-centering), refreshes the distance text and advances the step pointer by at most
  one, and changes nothing else.
\<close>

theorem reroute_only_when_route_inputs_change:
  "(nav_event_enabled e s \<longrightarrow> route_effect rx s (nav_step google rg gpd e s) \<noteq> [] \<longrightarrow>
      trip_from (nav_step google rg gpd e s) \<noteq> trip_from s
      \<or> trip_to (nav_step google rg gpd e s) \<noteq> trip_to s
      \<or> waypoints (nav_step google rg gpd e s) \<noteq> waypoints s)
   \<and> trip_to (on_position google rg cap newPos s) = trip_to s
   \<and> waypoints (on_position google rg cap newPos s) = waypoints s
   \<and> (trip_from (on_position google rg cap newPos s) = trip_from s \<longrightarrow>
        route_effect rx s (on_position google rg cap newPos s) = []
        \<and> on_position google rg cap newPos s =
            s\<lparr>userLocation := Some newPos,
              mapRef := mapRef (on_position google rg cap newPos s),
              distanceToNextTurn := distanceToNextTurn (on_position google rg cap newPos s),
              currentStepIndex := currentStepIndex (on_position google rg cap newPos s)\<rparr>
        \<and> currentStepIndex s \<le> currentStepIndex (on_position google rg cap newPos s)
        \<and> currentStepIndex (on_position google rg cap newPos s) \<le> currentStepIndex s + 1)"
proof (intro conjI impI)
  assume "nav_event_enabled e s" and "route_effect rx s (nav_step google rg gpd e s) \<noteq> []"
  then show "trip_from (nav_step google rg gpd e s) \<noteq> trip_from s
      \<or> trip_to (nav_step google rg gpd e s) \<noteq> trip_to s
      \<or> waypoints (nav_step google rg gpd e s) \<noteq> waypoints s"
    by (rule nav_step_reroute)
next
  show "trip_to (on_position google rg cap newPos s) = trip_to s"
    by (simp add: on_position_frame)
next
  show "waypoints (on_position google rg cap newPos s) = waypoints s"
    by (simp add: on_position_frame)
next
  assume "trip_from (on_position google rg cap newPos s) = trip_from s"
  then show "route_effect rx s (on_position google rg cap newPos s) = []"
    by (simp add: route_effect_same_deps on_position_route_deps)
next
  assume "trip_from (on_position google rg cap newPos s) = trip_from s"
  then show "on_position google rg cap newPos s =
            s\<lparr>userLocation := Some newPos,
              mapRef := mapRef (on_position google rg cap newPos s),
              distanceToNextTurn := distanceToNextTurn (on_position google rg cap newPos s),
              currentStepIndex := currentStepIndex (on_position google rg cap newPos s)\<rparr>"
    by (rule on_position_only_tracks)
next
  show "currentStepIndex s \<le> currentStepIndex (on_position google rg cap newPos s)"
    by (simp add: on_position_index)
next
  show "currentStepIndex (on_position google rg cap newPos s) \<le> currentStepIndex s + 1"
    by (simp add: on_position_index)
qed

theorem reroute_witness:
  "nav_event_enabled (SelectStop \<lparr>geometry_location = Some (LatLng 10 20), description = ''Fuel''\<rparr>)
     example_nav
   \<and> route_effect (\<lambda>t. None) example_nav
        (nav_step (Some example_sdk) (\<lambda>lat lng. None) (\<lambda>i. None)
           (SelectStop \<lparr>geometry_location = Some (LatLng 10 20), description = ''Fuel''\<rparr>)
           example_nav) \<noteq> []
   \<and> waypoints
        (nav_step (Some example_sdk) (\<lambda>lat lng. None) (\<lambda>i. None)
           (SelectStop \<lparr>geometry_location = Some (LatLng 10 20), description = ''Fuel''\<rparr>)
           example_nav) \<noteq> waypoints example_nav
   \<and> trip_from (on_position (Some example_sdk) (\<lambda>lat lng. None) example_nav (LatLng 10 20) example_nav)
       = trip_from example_nav
   \<and> route_effect (\<lambda>t. None) example_nav
        (on_position (Some example_sdk) (\<lambda>lat lng. None) example_nav (LatLng 10 20) example_nav) = []"
proof -
  let ?e = "SelectStop \<lparr>geometry_location = Some (LatLng 10 20), description = ''Fuel''\<rparr>"
  have en: "nav_event_enabled ?e example_nav" by simp
  have fires: "route_effect (\<lambda>t. None) example_nav
        (nav_step (Some example_sdk) (\<lambda>lat lng. None) (\<lambda>i. None) ?e example_nav) \<noteq> []"
    by (simp add: route_effect_def route_deps_def handleSelectStop_def fetchRoute_def
          example_nav_def Let_def)
  have same: "trip_from (on_position (Some example_sdk) (\<lambda>lat lng. None) example_nav (LatLng 10 20)
                example_nav) = trip_from example_nav"
    by (simp add: on_position_def turn_by_turn_def example_nav_def Let_def split: option.splits)
  have wps: "waypoints (nav_step (Some example_sdk) (\<lambda>lat lng. None) (\<lambda>i. None) ?e example_nav)
               \<noteq> waypoints example_nav"
    by (simp add: handleSelectStop_def Let_def)
  have quiet: "route_effect (\<lambda>t. None) example_nav
        (on_position (Some example_sdk) (\<lambda>lat lng. None) example_nav (LatLng 10 20) example_nav) = []"
    using same
      reroute_only_when_route_inputs_change
        [of ?e example_nav "\<lambda>t. None" "Some example_sdk" "\<lambda>lat lng. None" "\<lambda>i. None"
            example_nav "LatLng 10 20"]
    by (elim conjE) (erule (1) impE [THEN conjunct1] | simp)+
  from en fires wps same quiet show ?thesis by (intro conjI)
qed

section \<open>Properties of the vehicle handlers\<close>

lemma set_vehicles_frame:
  "user_id (set_vehicles t vs u) = user_id u
   \<and> name (set_vehicles t vs u) = name u
   \<and> phone (set_vehicles t vs u) = phone u
   \<and> get_vehicles (other_type t) (set_vehicles t vs u) = get_vehicles (other_type t) u
   \<and> UserProfile.more (set_vehicles t vs u) = UserProfile.more u"
  by (cases t) simp_all

text \<open>
  Claim C10: adding, removing or updating a vehicle in one collection of a logged-in
  user's profile yields a profile with the same identity, name, phone, other vehicle
  collection and remaining fields; without a logged-in user each of the three leaves the
  state as it is, and so does \<open>addVehicle\<close> with an empty registration number.
\<close>

theorem vehicle_mutations_frame:
  "(f = addVehicle t reg now \<or> f = removeVehicle t vid \<or> f = updateVehicle t v \<longrightarrow>
      f None = None
      \<and> (\<exists>u'. f (Some u) = Some u'
            \<and> user_id u' = user_id u \<and> name u' = name u \<and> phone u' = phone u
            \<and> get_vehicles (other_type t) u' = get_vehicles (other_type t) u
            \<and> UserProfile.more u' = UserProfile.more u))
   \<and> addVehicle t [] now user = user
   \<and> addVehicle t reg now None = None"
proof (intro conjI impI)
  assume f: "f = addVehicle t reg now \<or> f = removeVehicle t vid \<or> f = updateVehicle t v"
  then show "f None = None"
    by (auto simp: addVehicle_def removeVehicle_def updateVehicle_def)
  from f show "\<exists>u'. f (Some u) = Some u'
            \<and> user_id u' = user_id u \<and> name u' = name u \<and> phone u' = phone u
            \<and> get_vehicles (other_type t) u' = get_vehicles (other_type t) u
            \<and> UserProfile.more u' = UserProfile.more u"
    by (auto simp: addVehicle_def removeVehicle_def updateVehicle_def Let_def set_vehicles_frame)
next
  show "addVehicle t [] now user = user"
    by (simp add: addVehicle_def split: option.splits)
next
  show "addVehicle t reg now None = None"
    by (simp add: addVehicle_def)
qed

theorem vehicle_mutations_frame_witness:
  "addVehicle TwoWheelers ''KA01XY0001'' ''1700000000000'' (Some example_user) =
     Some (example_user\<lparr>twoWheelers :=
             twoWheelers example_user @ [\<lparr>vehicle_id = ''1700000000000'', regNumber = ''KA01XY0001''\<rparr>]\<rparr>)
   \<and> (\<exists>u'. addVehicle TwoWheelers ''KA01XY0001'' ''1700000000000'' (Some example_user) = Some u'
          \<and> name u' = name example_user
          \<and> get_vehicles FourWheelers u' = get_vehicles FourWheelers example_user)"
proof -
  have a: "addVehicle TwoWheelers ''KA01XY0001'' ''1700000000000'' (Some example_user) =
     Some (example_user\<lparr>twoWheelers :=
             twoWheelers example_user @ [\<lparr>vehicle_id = ''1700000000000'', regNumber = ''KA01XY0001''\<rparr>]\<rparr>)"
    by (simp add: addVehicle_def)
  from vehicle_mutations_frame
         [of "addVehicle TwoWheelers ''KA01XY0001'' ''1700000000000''" TwoWheelers
             "''KA01XY0001''" "''1700000000000''" "''x''" "\<lparr>vehicle_id = ''x'', regNumber = ''y''\<rparr>"
             example_user "None"]
  have "\<exists>u'. addVehicle TwoWheelers ''KA01XY0001'' ''1700000000000'' (Some example_user) = Some u'
          \<and> name u' = name example_user
          \<and> get_vehicles FourWheelers u' = get_vehicles FourWheelers example_user"
    by auto
  with a show ?thesis by (intro conjI)
qed

section \<open>Properties of the trip controllers\<close>

text \<open>
  Claim C2: when the trip addressed by an update or delete request exists and its owner is
  not the authenticated caller, the controller answers 401 \<^verbatim>\<open>Not authorized\<close> and the
  trip collection is exactly as before.
\<close>

theorem foreign_trip_update_delete_rejected:
  assumes "Trip_findById db (params_id req) = Inr (Some trip)"
    and "req_user req = Some caller"
    and "userId trip \<noteq> caller"
  shows "updateTrip db req = (\<lparr>status_code = 401, json = Message ''Not authorized''\<rparr>, db)
         \<and> deleteTrip db req = (\<lparr>status_code = 401, json = Message ''Not authorized''\<rparr>, db)"
  using assms by (simp add: updateTrip_def deleteTrip_def)

theorem foreign_trip_update_delete_rejected_witness:
  "Trip_findById example_store (params_id example_request) = Inr (Some example_trip)
   \<and> req_user example_request = Some ''mallory''
   \<and> userId example_trip \<noteq> ''mallory''
   \<and> updateTrip example_store example_request =
       (\<lparr>status_code = 401, json = Message ''Not authorized''\<rparr>, example_store)
   \<and> deleteTrip example_store example_request =
       (\<lparr>status_code = 401, json = Message ''Not authorized''\<rparr>, example_store)"
proof -
  have f: "Trip_findById example_store (params_id example_request) = Inr (Some example_trip)"
    by (simp add: Trip_findById_def example_store_def example_request_def)
  have u: "req_user example_request = Some ''mallory''"
    by (simp add: example_request_def)
  have o: "userId example_trip \<noteq> ''mallory''"
    by (simp add: example_trip_def)
  from foreign_trip_update_delete_rejected [OF f u o] f u o show ?thesis by simp
qed

section \<open>Properties of the HTTP operations\<close>

lemma getPlacePredictions_short:
  "length input < 3 \<Longrightarrow> getPlacePredictions env input = ([], [])"
  by (simp add: getPlacePredictions_def)

lemma getPlacePredictions_google_unloaded:
  "getPlacePredictions_google None query = ([], [])"
  by (simp add: getPlacePredictions_google_def getAutocompletePredictions_def)

text \<open>
  The planner's own effects ask for predictions only when the field holds more than two
  characters, so they never pass a shorter input on.
\<close>

lemma planner_effects_skip_short_input:
  "length (destination render) < 3 \<Longrightarrow>
     fetchDestinationPredictions google render st = ([], st\<lparr>destinationPredictions := []\<rparr>)"
  "length (stayLocation render) < 3 \<Longrightarrow>
     fetchStayPredictions google render st = ([], st\<lparr>stayPredictions := []\<rparr>)"
  by (simp_all add: fetchDestinationPredictions_def fetchStayPredictions_def)

text \<open>
  Claim C5, at the input \<open>ab\<close> with the SDK loaded: the SDK implementation of
  \<open>getPlacePredictions\<close> asks the provider's autocomplete service and returns what it
  answers, where the HTTP implementation returns \<open>[]\<close> without any call.
\<close>

theorem getPlacePredictions_google_short_input:
  "length ''ab'' < 3
   \<and> getPlacePredictions offline_env ''ab'' = ([], [])
   \<and> fst (getPlacePredictions_google (Some example_sdk) ''ab'') = [AutocompleteService ''ab'']
   \<and> snd (getPlacePredictions_google (Some example_sdk) ''ab'') \<noteq> []"
  by (simp add: getPlacePredictions_def getPlacePredictions_google_def
        getAutocompletePredictions_def example_sdk_def)

lemma length_fallback_rows:
  "fallback_matrix origins destinations =
     JObj [(''rows'',
            JArr (replicate (length origins)
                    (JObj [(''elements'', JArr (replicate (length destinations) fallback_element))])))]"
  by (simp add: fallback_matrix_def map_replicate_const)

text \<open>
  Claim C9: when the distance-matrix request fails (the fetch is rejected or its body is
  not JSON), \<open>getDistanceMatrix\<close> returns a matrix with one row per origin and in each
  row one element per destination, every element being status \<open>OK\<close>, distance 1000
  (\<open>1 km\<close>) and duration 600 (\<open>10 mins\<close>); a provider answering with that body yields
  the same return value, so the caller cannot tell the two apart.
\<close>

theorem getDistanceMatrix_failure_fabricates:
  assumes "fetch env (distanceMatrix_url env origins destinations) = Rejected
           \<or> fetch env (distanceMatrix_url env origins destinations) = NotJson"
  shows "snd (getDistanceMatrix env origins destinations) =
           JObj [(''rows'',
                  JArr (replicate (length origins)
                          (JObj [(''elements'',
                                  JArr (replicate (length destinations)
                                          (JObj [(''status'', JStr ''OK''),
                                                 (''distance'', JObj [(''value'', JNum 1000),
                                                                      (''text'', JStr ''1 km'')]),
                                                 (''duration'', JObj [(''value'', JNum 600),
                                                                      (''text'', JStr ''10 mins'')])])))])))]
         \<and> (\<exists>env'. (\<exists>data. fetch env' (distanceMatrix_url env' origins destinations) = Parsed data)
                \<and> getDistanceMatrix env' origins destinations
                    = getDistanceMatrix env origins destinations)"
proof
  from assms show "snd (getDistanceMatrix env origins destinations) =
           JObj [(''rows'',
                  JArr (replicate (length origins)
                          (JObj [(''elements'',
                                  JArr (replicate (length destinations)
                                          (JObj [(''status'', JStr ''OK''),
                                                 (''distance'', JObj [(''value'', JNum 1000),
                                                                      (''text'', JStr ''1 km'')]),
                                                 (''duration'', JObj [(''value'', JNum 600),
                                                                      (''text'', JStr ''10 mins'')])])))])))]"
    by (auto simp: getDistanceMatrix_def Let_def length_fallback_rows fallback_element_def)
next
  let ?env' = "env\<lparr>fetch := (\<lambda>url. Parsed (fallback_matrix origins destinations))\<rparr>"
  have u: "distanceMatrix_url ?env' origins destinations = distanceMatrix_url env origins destinations"
    by (simp add: distanceMatrix_url_def)
  have "getDistanceMatrix ?env' origins destinations = getDistanceMatrix env origins destinations"
    using assms by (auto simp: getDistanceMatrix_def Let_def u)
  moreover have "\<exists>data. fetch ?env' (distanceMatrix_url ?env' origins destinations) = Parsed data"
    by simp
  ultimately show "\<exists>env'. (\<exists>data. fetch env' (distanceMatrix_url env' origins destinations) = Parsed data)
                \<and> getDistanceMatrix env' origins destinations
                    = getDistanceMatrix env origins destinations"
    by blast
qed

theorem getDistanceMatrix_failure_witness:
  "fetch offline_env (distanceMatrix_url offline_env [''Pune'', ''Mumbai''] [''Lonavala'']) = Rejected
   \<and> snd (getDistanceMatrix offline_env [''Pune'', ''Mumbai''] [''Lonavala'']) =
       JObj [(''rows'',
              JArr [JObj [(''elements'',
                           JArr [JObj [(''status'', JStr ''OK''),
                                       (''distance'', JObj [(''value'', JNum 1000),
                                                            (''text'', JStr ''1 km'')]),
                                       (''duration'', JObj [(''value'', JNum 600),
                                                            (''text'', JStr ''10 mins'')])]])],
                    JObj [(''elements'',
                           JArr [JObj [(''status'', JStr ''OK''),
                                       (''distance'', JObj [(''value'', JNum 1000),
                                                            (''text'', JStr ''1 km'')]),
                                       (''duration'', JObj [(''value'', JNum 600),
                                                            (''text'', JStr ''10 mins'')])]])]])]"
proof -
  have h: "fetch offline_env (distanceMatrix_url offline_env [''Pune'', ''Mumbai''] [''Lonavala''])
             = Rejected"
    by (simp add: offline_env_def)
  from getDistanceMatrix_failure_fabricates
         [of offline_env "[''Pune'', ''Mumbai'']" "[''Lonavala'']"] h
  have "snd (getDistanceMatrix offline_env [''Pune'', ''Mumbai''] [''Lonavala'']) =
           JObj [(''rows'',
                  JArr (replicate (length [''Pune'', ''Mumbai''])
                          (JObj [(''elements'',
                                  JArr (replicate (length [''Lonavala''])
                                          (JObj [(''status'', JStr ''OK''),
                                                 (''distance'', JObj [(''value'', JNum 1000),
                                                                      (''text'', JStr ''1 km'')]),
                                                 (''duration'', JObj [(''value'', JNum 600),
                                                                      (''text'', JStr ''10 mins'')])])))])))]"
    by blast
  then have "snd (getDistanceMatrix offline_env [''Pune'', ''Mumbai''] [''Lonavala'']) =
       JObj [(''rows'',
              JArr [JObj [(''elements'',
                           JArr [JObj [(''status'', JStr ''OK''),
                                       (''distance'', JObj [(''value'', JNum 1000),
                                                            (''text'', JStr ''1 km'')]),
                                       (''duration'', JObj [(''value'', JNum 600),
                                                            (''text'', JStr ''10 mins'')])]])],
                    JObj [(''elements'',
                           JArr [JObj [(''status'', JStr ''OK''),
                                       (''distance'', JObj [(''value'', JNum 1000),
                                                            (''text'', JStr ''1 km'')]),
                                       (''duration'', JObj [(''value'', JNum 600),
                                                            (''text'', JStr ''10 mins'')])]])]])]"
    by (simp add: numeral_2_eq_2)
  with h show ?thesis by (intro conjI)
qed

section \<open>Properties of the planner flow\<close>

text \<open>
  After the click the step is 1, so of the effects only the clearing branch of the stays
  effect and the two debounced setters can run; none of them touches the fields the
  handler has set.
\<close>

lemma effects_after_keeps:
  assumes "step render = 1"
  shows "step (effects_after env prev render) = step render"
    and "destination (effects_after env prev render) = destination render"
    and "hasStayPlanned (effects_after env prev render) = hasStayPlanned render"
    and "stayLocation (effects_after env prev render) = stayLocation render"
    and "selectedStayId (effects_after env prev render) = selectedStayId render"
    and "nearbyAttractions (effects_after env prev render) = nearbyAttractions render"
  using assms
  by (simp_all add: effects_after_def stays_effect_def attractions_effect_def
        fetchDestinationPredictions_def fetchStayPredictions_def Let_def split: prod.splits)

lemma terminal_action_clears_stays:
  "step s \<noteq> 1 \<Longrightarrow>
     stays (fst (terminal_action env s)) = [] \<and> staysError (fst (terminal_action env s)) = None"
  by (simp add: terminal_action_def completeAndGoHome_def effects_after_def stays_effect_def
        attractions_effect_def fetchDestinationPredictions_def fetchStayPredictions_def Let_def
        split: prod.splits)

theorem terminal_action_not_initial:
  "destination (fst (terminal_action example_env example_planner)) = ''Current Location''
   \<and> destination initial_planner = []
   \<and> nearbyAttractions (fst (terminal_action example_env example_planner)) = [example_attraction]
   \<and> nearbyAttractions initial_planner = []
   \<and> destination (fst (terminal_action example_env example_planner)) \<noteq> destination initial_planner
   \<and> nearbyAttractions (fst (terminal_action example_env example_planner))
       \<noteq> nearbyAttractions initial_planner"
proof -
  have r: "step (fst (completeAndGoHome example_planner)) = 1"
    by (simp add: completeAndGoHome_def)
  have d: "destination (fst (terminal_action example_env example_planner)) = ''Current Location''"
    using effects_after_keeps(2) [OF r, of example_env example_planner]
    by (simp add: terminal_action_def completeAndGoHome_def split: prod.splits)
  have n: "nearbyAttractions (fst (terminal_action example_env example_planner)) = [example_attraction]"
    using effects_after_keeps(6) [OF r, of example_env example_planner]
    by (simp add: terminal_action_def completeAndGoHome_def example_planner_def split: prod.splits)
  show ?thesis
    unfolding d n by (simp add: initial_planner_def)
qed

text \<open>
  Claim C6, amended: the terminal action of planner state 3 returns the app to the home
  screen and the wizard to state 1, resets the stay toggle, the stay location text and the
  selected stay id to their initial values, and sets the destination to
  \<open>Current Location\<close>.
\<close>

theorem terminal_action_resets:
  "snd (terminal_action env s) = Home
   \<and> step (fst (terminal_action env s)) = 1
   \<and> hasStayPlanned (fst (terminal_action env s)) = hasStayPlanned initial_planner
   \<and> stayLocation (fst (terminal_action env s)) = stayLocation initial_planner
   \<and> selectedStayId (fst (terminal_action env s)) = selectedStayId initial_planner
   \<and> destination (fst (terminal_action env s)) = ''Current Location''"
proof -
  have r: "step (fst (completeAndGoHome s)) = 1"
    by (simp add: completeAndGoHome_def)
  have t: "fst (terminal_action env s) = effects_after env s (fst (completeAndGoHome s))"
    and h: "snd (terminal_action env s) = Home"
    by (simp_all add: terminal_action_def completeAndGoHome_def)
  show ?thesis
    unfolding t h effects_after_keeps [OF r]
    by (simp add: completeAndGoHome_def initial_planner_def)
qed

section \<open>Properties of the saved-route toggle\<close>

lemma find_None_filter: "find P xs = None \<longleftrightarrow> filter P xs = []"
  by (induction xs) auto

lemma find_Some_mem: "find P xs = Some x \<Longrightarrow> x \<in> set xs \<and> P x"
  by (induction xs) (auto split: if_splits)

lemma filter_at_most_one:
  assumes "length (filter P xs) \<le> 1" and "x \<in> set xs" and "P x" and "y \<in> set xs" and "P y"
  shows "x = y"
proof (rule ccontr)
  assume ne: "x \<noteq> y"
  from assms have "{x, y} \<subseteq> set (filter P xs)" by simp
  then have "card {x, y} \<le> card (set (filter P xs))" by (simp add: card_mono)
  also have "\<dots> \<le> length (filter P xs)" by (rule card_length)
  finally show False using ne assms(1) by simp
qed

lemma distinct_ids_eq:
  assumes "distinct (map f xs)" and "x \<in> set xs" and "y \<in> set xs" and "f x = f y"
  shows "x = y"
  using assms by (meson distinct_map inj_on_def)

theorem toggle_twice_loses_duplicates:
  "duplicated_routes =
     [\<lparr>route_id = ''r2'', route_origin = ''Hilltop Inn'', route_destination = ''Tiger Point'',
       route_stay = ''Tiger Point'', travelTime = []\<rparr>,
      \<lparr>route_id = ''r1'', route_origin = ''Hilltop Inn'', route_destination = ''Tiger Point'',
       route_stay = ''Hilltop Inn'', travelTime = []\<rparr>]
   \<and> route_pairs duplicated_routes = {(''Hilltop Inn'', ''Tiger Point'')}
   \<and> toggle_settled (echo_api ''r4'') (Some ''Hilltop Inn'') example_attraction
       (toggle_settled (echo_api ''r3'') (Some ''Hilltop Inn'') example_attraction
          duplicated_routes) = []
   \<and> route_pairs
       (toggle_settled (echo_api ''r4'') (Some ''Hilltop Inn'') example_attraction
          (toggle_settled (echo_api ''r3'') (Some ''Hilltop Inn'') example_attraction
             duplicated_routes)) = {}
   \<and> route_pairs
       (toggle_settled (echo_api ''r4'') (Some ''Hilltop Inn'') example_attraction
          (toggle_settled (echo_api ''r3'') (Some ''Hilltop Inn'') example_attraction
             duplicated_routes)) \<noteq> route_pairs duplicated_routes"
  by (simp add: duplicated_routes_def toggle_settled_def handleToggleDestination_def addRoute_def removeRoute_def
        reverseRoute_def echo_api_def example_attraction_def route_pairs_def)

text \<open>
  Two toggles made before the first request is answered both see the list without the
  route, so both post and the store ends with two routes for the pair.
\<close>

lemma overlapping_toggles_post_twice:
  "handleToggleDestination (echo_api ''r2'') (Some ''Hilltop Inn'') example_attraction []
     (handleToggleDestination (echo_api ''r1'') (Some ''Hilltop Inn'') example_attraction [] [])
   = [example_route ''r2'', example_route ''r1'']"
  by (simp add: handleToggleDestination_def addRoute_def echo_api_def example_attraction_def
        example_route_def)

text \<open>A toggle whose request fails changes nothing, so a failure followed by a success adds.\<close>

lemma toggle_after_failed_post:
  "toggle_settled offline_api (Some ''Hilltop Inn'') example_attraction [] = []
   \<and> toggle_settled (echo_api ''r1'') (Some ''Hilltop Inn'') example_attraction
        (toggle_settled offline_api (Some ''Hilltop Inn'') example_attraction [])
       = [example_route ''r1'']"
  by (simp add: toggle_settled_def handleToggleDestination_def addRoute_def offline_api_def echo_api_def
        example_attraction_def example_route_def)

lemma pair_in_route_pairs:
  "(a, b) \<in> route_pairs rs \<longleftrightarrow> filter (\<lambda>r. route_origin r = a \<and> route_destination r = b) rs \<noteq> []"
  by (auto simp: route_pairs_def filter_empty_conv)

lemma toggle_absent:
  assumes sn: "sn \<noteq> []"
    and none: "find (\<lambda>r. route_origin r = sn \<and> route_destination r = stay_name dest) rs = None"
    and b1: "backend_accepts api1 \<lparr>data_origin = sn, data_destination = stay_name dest, data_stay = sn\<rparr> rs"
    and del2: "\<forall>i. delete_saved_route api2 i"
  shows "toggle_settled api2 (Some sn) dest (toggle_settled api1 (Some sn) dest rs) = rs"
    and "(sn, stay_name dest) \<in> route_pairs (toggle_settled api1 (Some sn) dest rs)"
proof -
  let ?d = "\<lparr>data_origin = sn, data_destination = stay_name dest, data_stay = sn\<rparr>"
  from b1 obtain r1 where p: "post_saved_route api1 ?d = Some r1"
    and o: "route_origin r1 = sn" and d: "route_destination r1 = stay_name dest"
    and fresh: "route_id r1 \<notin> set (map route_id rs)"
    by (auto simp: backend_accepts_def split: option.splits)
  have t1: "toggle_settled api1 (Some sn) dest rs = r1 # rs"
    using sn none p by (simp add: toggle_settled_def handleToggleDestination_def addRoute_def)
  have keep: "filter (\<lambda>r. route_id r \<noteq> route_id r1) rs = rs"
  proof -
    have "route_id r \<noteq> route_id r1" if "r \<in> set rs" for r
    proof
      assume "route_id r = route_id r1"
      with that have "route_id r1 \<in> route_id ` set rs" by (metis imageI)
      with fresh show False by simp
    qed
    then show ?thesis by (simp add: filter_id_conv)
  qed
  show "toggle_settled api2 (Some sn) dest (toggle_settled api1 (Some sn) dest rs) = rs"
    unfolding t1 using sn o d del2 keep by (simp add: toggle_settled_def handleToggleDestination_def removeRoute_def)
  show "(sn, stay_name dest) \<in> route_pairs (toggle_settled api1 (Some sn) dest rs)"
    using o d by (simp add: t1 route_pairs_def image_iff)
qed

lemma toggle_present:
  assumes sn: "sn \<noteq> []"
    and some: "find (\<lambda>r. route_origin r = sn \<and> route_destination r = stay_name dest) rs = Some e"
    and ids: "distinct (map route_id rs)"
    and once: "length (filter (\<lambda>r. route_origin r = sn \<and> route_destination r = stay_name dest) rs) \<le> 1"
    and del1: "\<forall>i. delete_saved_route api1 i"
    and b2: "backend_accepts api2 \<lparr>data_origin = sn, data_destination = stay_name dest, data_stay = sn\<rparr>
               (toggle_settled api1 (Some sn) dest rs)"
  shows "route_pairs (toggle_settled api2 (Some sn) dest
            (toggle_settled api1 (Some sn) dest rs)) = route_pairs rs"
    and "(sn, stay_name dest) \<notin> route_pairs (toggle_settled api1 (Some sn) dest rs)"
proof -
  let ?P = "\<lambda>r. route_origin r = sn \<and> route_destination r = stay_name dest"
  let ?d = "\<lparr>data_origin = sn, data_destination = stay_name dest, data_stay = sn\<rparr>"
  let ?t1 = "filter (\<lambda>r. route_id r \<noteq> route_id e) rs"
  from some have e: "e \<in> set rs" "?P e" using find_Some_mem [of ?P rs e] by simp_all
  have t1: "toggle_settled api1 (Some sn) dest rs = ?t1"
    using sn some del1 by (simp add: toggle_settled_def handleToggleDestination_def removeRoute_def)
  have set_t1: "set ?t1 = set rs - {e}"
    using distinct_ids_eq [OF ids _ e(1)] e(1) by auto
  have gone: "filter ?P ?t1 = []"
  proof -
    have "\<not> ?P r" if "r \<in> set ?t1" for r
    proof
      assume "?P r"
      with that set_t1 have "r \<in> set rs" "?P r" "r \<noteq> e" by auto
      with filter_at_most_one [OF once _ _ e(1) e(2), of r] show False by simp
    qed
    then show ?thesis by (simp only: filter_empty_conv) blast
  qed
  then have none: "find ?P ?t1 = None" by (simp add: find_None_filter)
  from b2 obtain r2 where p: "post_saved_route api2 ?d = Some r2"
    and o: "route_origin r2 = sn" and d: "route_destination r2 = stay_name dest"
    by (auto simp: backend_accepts_def split: option.splits)
  have t2: "toggle_settled api2 (Some sn) dest ?t1 = r2 # ?t1"
    using sn none p by (simp add: toggle_settled_def handleToggleDestination_def addRoute_def)
  have "route_pairs rs = insert (sn, stay_name dest) (route_pairs ?t1)"
    unfolding route_pairs_def set_map set_t1 using e by auto
  moreover have "route_pairs (r2 # ?t1) = insert (sn, stay_name dest) (route_pairs ?t1)"
    using o d by (simp add: route_pairs_def)
  ultimately show "route_pairs (toggle_settled api2 (Some sn) dest
            (toggle_settled api1 (Some sn) dest rs)) = route_pairs rs"
    by (simp add: t1 t2)
  show "(sn, stay_name dest) \<notin> route_pairs (toggle_settled api1 (Some sn) dest rs)"
    using gone by (simp add: t1 pair_in_route_pairs)
qed

text \<open>
  Claim C3, amended: let the ids of the saved routes be distinct, let at most one saved
  route have the toggled (origin, destination) pair, let the backend accept the calls of
  both toggles, and let each toggle be made once the one before it has been answered and
  rendered.  Then toggling the attraction twice returns the set of
  (origin, destination) pairs of the saved routes to what it was; with a non-empty stay
  name the first toggle makes the pair present if it was absent and absent if it was
  present.  Without a stay name a toggle changes nothing.
\<close>

theorem toggle_twice_restores_pairs:
  assumes "distinct (map route_id savedRoutes)"
    and "length (filter (\<lambda>r. route_origin r = sn \<and> route_destination r = stay_name dest) savedRoutes) \<le> 1"
    and "backend_accepts api1 \<lparr>data_origin = sn, data_destination = stay_name dest, data_stay = sn\<rparr>
           savedRoutes"
    and "backend_accepts api2 \<lparr>data_origin = sn, data_destination = stay_name dest, data_stay = sn\<rparr>
           (toggle_settled api1 (Some sn) dest savedRoutes)"
  shows "route_pairs (toggle_settled api2 (Some sn) dest
            (toggle_settled api1 (Some sn) dest savedRoutes)) = route_pairs savedRoutes
         \<and> (sn \<noteq> [] \<longrightarrow>
              ((sn, stay_name dest) \<in> route_pairs (toggle_settled api1 (Some sn) dest savedRoutes)
               \<longleftrightarrow> (sn, stay_name dest) \<notin> route_pairs savedRoutes))
         \<and> toggle_settled api1 None dest savedRoutes = savedRoutes
         \<and> toggle_settled api1 (Some []) dest savedRoutes = savedRoutes"
proof (cases "sn = []")
  case True
  then show ?thesis by (simp add: toggle_settled_def handleToggleDestination_def)
next
  case False
  let ?P = "\<lambda>r. route_origin r = sn \<and> route_destination r = stay_name dest"
  have del1: "\<forall>i. delete_saved_route api1 i" and del2: "\<forall>i. delete_saved_route api2 i"
    using assms(3,4) by (simp_all add: backend_accepts_def)
  have idle: "toggle_settled api1 None dest savedRoutes = savedRoutes
              \<and> toggle_settled api1 (Some []) dest savedRoutes = savedRoutes"
    by (simp add: toggle_settled_def handleToggleDestination_def)
  show ?thesis
  proof (cases "find ?P savedRoutes")
    case None
    then have "(sn, stay_name dest) \<notin> route_pairs savedRoutes"
      by (simp add: pair_in_route_pairs find_None_filter)
    with toggle_absent [OF False None assms(3) del2] idle show ?thesis by simp
  next
    case (Some e)
    then have "(sn, stay_name dest) \<in> route_pairs savedRoutes"
      using find_None_filter [of ?P savedRoutes] by (simp add: pair_in_route_pairs)
    with toggle_present [OF False Some assms(1,2) del1 assms(4)] idle show ?thesis by simp
  qed
qed

theorem toggle_twice_restores_pairs_witness:
  "distinct (map route_id [example_route ''r1''])
   \<and> length (filter (\<lambda>r. route_origin r = ''Hilltop Inn'' \<and> route_destination r = stay_name example_attraction)
               [example_route ''r1'']) \<le> 1
   \<and> backend_accepts (echo_api ''r2'')
        \<lparr>data_origin = ''Hilltop Inn'', data_destination = stay_name example_attraction,
          data_stay = ''Hilltop Inn''\<rparr> [example_route ''r1'']
   \<and> backend_accepts (echo_api ''r3'')
        \<lparr>data_origin = ''Hilltop Inn'', data_destination = stay_name example_attraction,
          data_stay = ''Hilltop Inn''\<rparr>
        (toggle_settled (echo_api ''r2'') (Some ''Hilltop Inn'') example_attraction
           [example_route ''r1''])
   \<and> toggle_settled (echo_api ''r2'') (Some ''Hilltop Inn'') example_attraction
        [example_route ''r1''] = []
   \<and> route_pairs (toggle_settled (echo_api ''r3'') (Some ''Hilltop Inn'') example_attraction
        (toggle_settled (echo_api ''r2'') (Some ''Hilltop Inn'') example_attraction
           [example_route ''r1''])) = route_pairs [example_route ''r1'']"
proof -
  have t1: "toggle_settled (echo_api ''r2'') (Some ''Hilltop Inn'') example_attraction
              [example_route ''r1''] = []"
    by (simp add: toggle_settled_def handleToggleDestination_def removeRoute_def example_route_def
          example_attraction_def echo_api_def)
  have h1: "distinct (map route_id [example_route ''r1''])" by simp
  have h2: "length (filter (\<lambda>r. route_origin r = ''Hilltop Inn''
                              \<and> route_destination r = stay_name example_attraction)
               [example_route ''r1'']) \<le> 1" by simp
  have h3: "backend_accepts (echo_api ''r2'')
        \<lparr>data_origin = ''Hilltop Inn'', data_destination = stay_name example_attraction,
          data_stay = ''Hilltop Inn''\<rparr> [example_route ''r1'']"
    by (simp add: backend_accepts_def echo_api_def example_route_def)
  have h4: "backend_accepts (echo_api ''r3'')
        \<lparr>data_origin = ''Hilltop Inn'', data_destination = stay_name example_attraction,
          data_stay = ''Hilltop Inn''\<rparr>
        (toggle_settled (echo_api ''r2'') (Some ''Hilltop Inn'') example_attraction
           [example_route ''r1''])"
    unfolding t1 by (simp add: backend_accepts_def echo_api_def)
  from toggle_twice_restores_pairs [OF h1 h2 h3 h4] h1 h2 h3 h4 t1 show ?thesis by simp
qed
end
